theory Spec2Isabelle
  imports Complex_Main
begin

section \<open>JSON values and the JavaScript operations of index.js\<close>

text \<open>
  The values the handlers see are the results of \<^verbatim>\<open>JSON.parse\<close> (on the backing file) and
  of \<^verbatim>\<open>express.json()\<close> (on the request body): null, booleans, numbers, strings, arrays and
  objects. Each request is handled in one piece: the interleaving of concurrent requests is
  not part of this model. A number is a finite double, hence a rational; \<open>-0\<close> and \<open>0\<close> are both \<open>JNum 0\<close>
  (they are equal under \<^verbatim>\<open>===\<close>, both falsy, and both printed as \<^verbatim>\<open>0\<close>). An object is the
  list of its own properties in enumeration order.
\<close>

datatype json =
    JNull
  | JBool bool
  | JNum rat
  | JStr string
  | JArr "json list"
  | JObj "(string \<times> json) list"

text \<open>
  What a \<^verbatim>\<open>try\<close> block of index.js can throw: the two kinds of failure of \<^verbatim>\<open>fs.readFile\<close>
  and \<^verbatim>\<open>fs.writeFile\<close> that the handlers tell apart (\<^verbatim>\<open>err.code === 'ENOENT'\<close> and
  every other system error), the \<^verbatim>\<open>SyntaxError\<close> of \<^verbatim>\<open>JSON.parse\<close>, the \<^verbatim>\<open>TypeError\<close> of
  a property read on \<^verbatim>\<open>null\<close>, and the \<^verbatim>\<open>Error\<close> thrown at line 117, whose message starts
  with "Failed to parse existing agent data".
\<close>

datatype exn = ENOENT | IOError | SyntaxError | TypeError | ParseFailure

text \<open>JavaScript truthiness (\<^verbatim>\<open>!x\<close>, \<^verbatim>\<open>if (x)\<close>); \<open>None\<close> is \<^verbatim>\<open>undefined\<close>.\<close>

fun truthy :: "json \<Rightarrow> bool" where
  "truthy JNull = False"
| "truthy (JBool b) = b"
| "truthy (JNum n) = (n \<noteq> 0)"
| "truthy (JStr s) = (s \<noteq> [])"
| "truthy (JArr xs) = True"
| "truthy (JObj kvs) = True"

fun truthy_opt :: "json option \<Rightarrow> bool" where
  "truthy_opt None = False"
| "truthy_opt (Some v) = truthy v"

fun typeof :: "json \<Rightarrow> string" where
  "typeof JNull = ''object''"
| "typeof (JBool b) = ''boolean''"
| "typeof (JNum n) = ''number''"
| "typeof (JStr s) = ''string''"
| "typeof (JArr xs) = ''object''"
| "typeof (JObj kvs) = ''object''"

fun Array_isArray :: "json \<Rightarrow> bool" where
  "Array_isArray (JArr xs) = True"
| "Array_isArray v = False"

fun elements :: "json \<Rightarrow> json list" where
  "elements (JArr xs) = xs"
| "elements v = []"

text \<open>
  A property read \<^verbatim>\<open>x.k\<close>, for the three names index.js reads: \<^verbatim>\<open>approved\<close>, \<^verbatim>\<open>id\<close> and
  \<^verbatim>\<open>name\<close>. None of them is defined on the prototype of a string, number, boolean, array
  or plain object, so the read yields the object's own property, \<^verbatim>\<open>undefined\<close> where there
  is none, and throws a \<^verbatim>\<open>TypeError\<close> on \<^verbatim>\<open>null\<close>.
\<close>

fun own_property :: "json \<Rightarrow> string \<Rightarrow> json option" where
  "own_property (JObj kvs) k = map_of kvs k"
| "own_property v k = None"

definition member :: "json \<Rightarrow> string \<Rightarrow> exn + json option" where
  "member x k = (if x = JNull then Inl TypeError else Inr (own_property x k))"

text \<open>
  An assignment \<^verbatim>\<open>x.k = v\<close>: an existing property keeps its place, a new one comes last.
  On an array the new property is not an element, and neither \<^verbatim>\<open>JSON.stringify\<close> nor
  \<^verbatim>\<open>res.json\<close> shows it. (index.js assigns only after its validation, which lets through
  objects only; see \<open>rejected_only_objects_pass\<close>.)
\<close>

fun set_property :: "string \<Rightarrow> json \<Rightarrow> (string \<times> json) list \<Rightarrow> (string \<times> json) list" where
  "set_property k v [] = [(k, v)]"
| "set_property k v ((k', v') # kvs) =
     (if k' = k then (k, v) # kvs else (k', v') # set_property k v kvs)"

fun assign :: "json \<Rightarrow> string \<Rightarrow> json \<Rightarrow> json" where
  "assign (JObj kvs) k v = JObj (set_property k v kvs)"
| "assign x k v = x"

text \<open>
  \<^verbatim>\<open>Array.prototype.filter\<close> and \<^verbatim>\<open>Array.prototype.find\<close> with a callback that may throw:
  the exception leaves the loop. \<^verbatim>\<open>find\<close> stops at the first element the callback accepts.
\<close>

fun filter_js :: "('a \<Rightarrow> exn + bool) \<Rightarrow> 'a list \<Rightarrow> exn + 'a list" where
  "filter_js p [] = Inr []"
| "filter_js p (x # xs) =
     (case p x of
        Inl err \<Rightarrow> Inl err
      | Inr keep \<Rightarrow>
          (case filter_js p xs of
             Inl err \<Rightarrow> Inl err
           | Inr ys \<Rightarrow> Inr (if keep then x # ys else ys)))"

fun find_js :: "('a \<Rightarrow> exn + bool) \<Rightarrow> 'a list \<Rightarrow> exn + 'a option" where
  "find_js p [] = Inr None"
| "find_js p (x # xs) =
     (case p x of
        Inl err \<Rightarrow> Inl err
      | Inr hit \<Rightarrow> (if hit then Inr (Some x) else find_js p xs))"

text \<open>
  \<^verbatim>\<open>JSON.parse\<close> and \<^verbatim>\<open>JSON.stringify(agents, null, 2)\<close> belong to the runtime, not to
  index.js: the handlers take them as the parameters \<open>parse\<close> (\<open>None\<close> where the text is
  not JSON) and \<open>stringify\<close>.
\<close>

definition JSON_parse :: "(string \<Rightarrow> json option) \<Rightarrow> string \<Rightarrow> exn + json" where
  "JSON_parse parse data = (case parse data of None \<Rightarrow> Inl SyntaxError | Some v \<Rightarrow> Inr v)"

section \<open>The backing file\<close>

text \<open>
  The state outside the process: the text of agents.json (\<open>None\<close> while the file does not
  exist), whether reading or writing it fails for another reason (permissions, I/O), and
  the sequence of accesses made so far. A failed write leaves the text as it was.
\<close>

datatype io_event = ReadFile | WriteFile string

record disk =
  content :: "string option"
  read_fault :: bool
  write_fault :: bool
  io_trace :: "io_event list"

definition readFile :: "disk \<Rightarrow> disk \<times> (exn + string)" where
  "readFile d =
     (d\<lparr>io_trace := io_trace d @ [ReadFile]\<rparr>,
      if read_fault d then Inl IOError
      else (case content d of None \<Rightarrow> Inl ENOENT | Some data \<Rightarrow> Inr data))"

definition writeFile :: "disk \<Rightarrow> string \<Rightarrow> disk \<times> (exn + unit)" where
  "writeFile d text =
     (if write_fault d then (d\<lparr>io_trace := io_trace d @ [WriteFile text]\<rparr>, Inl IOError)
      else (d\<lparr>content := Some text, io_trace := io_trace d @ [WriteFile text]\<rparr>, Inr ()))"

section \<open>Responses\<close>

record response =
  status :: nat
  body :: json

definition message :: "string \<Rightarrow> json" where
  "message s = JObj [(''message'', JStr s)]"

section \<open>GET /api/agents\<close>

text \<open>The callback \<^verbatim>\<open>agent => agent.approved === true\<close> of line 22.\<close>

definition approved_test :: "json \<Rightarrow> exn + bool" where
  "approved_test agent =
     (case member agent ''approved'' of
        Inl err \<Rightarrow> Inl err
      | Inr v \<Rightarrow> Inr (v = Some (JBool True)))"

text \<open>Lines 19 to 23, given the outcome of the read.\<close>

definition list_agents_try :: "(string \<Rightarrow> json option) \<Rightarrow> exn + string \<Rightarrow> exn + response" where
  "list_agents_try parse rd =
     (case rd of
        Inl err \<Rightarrow> Inl err
      | Inr data \<Rightarrow>
          (case JSON_parse parse data of
             Inl err \<Rightarrow> Inl err
           | Inr agents \<Rightarrow>
               (if Array_isArray agents then
                  (case filter_js approved_test (elements agents) of
                     Inl err \<Rightarrow> Inl err
                   | Inr approvedAgents \<Rightarrow> Inr \<lparr>status = 200, body = JArr approvedAgents\<rparr>)
                else Inr \<lparr>status = 200, body = JArr []\<rparr>)))"

text \<open>Lines 24 to 35.\<close>

definition list_agents_catch :: "exn \<Rightarrow> response" where
  "list_agents_catch err =
     (if err = ENOENT then \<lparr>status = 200, body = JArr []\<rparr>
      else if err = SyntaxError then
        \<lparr>status = 500, body = message ''Error parsing agent data file.''\<rparr>
      else \<lparr>status = 500, body = message ''Error fetching agents''\<rparr>)"

definition list_agents :: "(string \<Rightarrow> json option) \<Rightarrow> disk \<Rightarrow> disk \<times> response" where
  "list_agents parse d =
     (let (d1, rd) = readFile d in
      (d1, case list_agents_try parse rd of Inr res \<Rightarrow> res | Inl err \<Rightarrow> list_agents_catch err))"

section \<open>GET /api/agents/:id\<close>

text \<open>
  The callback of lines 54 to 58, \<^verbatim>\<open>agent.id === requestedId && agent.approved === true\<close>.
\<close>

definition id_and_approved_test :: "string \<Rightarrow> json \<Rightarrow> exn + bool" where
  "id_and_approved_test requestedId agent =
     (case member agent ''id'' of
        Inl err \<Rightarrow> Inl err
      | Inr v \<Rightarrow>
          (if v = Some (JStr requestedId) then
             (case member agent ''approved'' of
                Inl err \<Rightarrow> Inl err
              | Inr w \<Rightarrow> Inr (w = Some (JBool True)))
           else Inr False))"

text \<open>Lines 45 to 66, given the outcome of the read.\<close>

definition get_agent_try ::
  "(string \<Rightarrow> json option) \<Rightarrow> exn + string \<Rightarrow> string \<Rightarrow> exn + response" where
  "get_agent_try parse rd requestedId =
     (case rd of
        Inl err \<Rightarrow> Inl err
      | Inr data \<Rightarrow>
          (case JSON_parse parse data of
             Inl err \<Rightarrow> Inl err
           | Inr agents \<Rightarrow>
               (if \<not> Array_isArray agents then
                  Inr \<lparr>status = 500, body = message ''Error reading agent data.''\<rparr>
                else
                  (case find_js (id_and_approved_test requestedId) (elements agents) of
                     Inl err \<Rightarrow> Inl err
                   | Inr agent \<Rightarrow>
                       (case agent of
                          Some found \<Rightarrow>
                            (if truthy found then Inr \<lparr>status = 200, body = found\<rparr>
                             else Inr \<lparr>status = 404,
                                       body = message ''Agent not found or not approved''\<rparr>)
                        | None \<Rightarrow>
                            Inr \<lparr>status = 404,
                                 body = message ''Agent not found or not approved''\<rparr>)))))"

text \<open>Lines 67 to 79.\<close>

definition get_agent_catch :: "exn \<Rightarrow> response" where
  "get_agent_catch err =
     (if err = ENOENT then \<lparr>status = 404, body = message ''Agent not found''\<rparr>
      else if err = SyntaxError then
        \<lparr>status = 500, body = message ''Error parsing agent data file.''\<rparr>
      else \<lparr>status = 500, body = message ''Error fetching agent details''\<rparr>)"

text \<open>
  The handler from line 44 on; \<open>requestedId\<close> is the identifier after the
  \<^verbatim>\<open>decodeURIComponent\<close> of line 41.
\<close>

definition get_agent :: "(string \<Rightarrow> json option) \<Rightarrow> disk \<Rightarrow> string \<Rightarrow> disk \<times> response" where
  "get_agent parse d requestedId =
     (let (d1, rd) = readFile d in
      (d1, case get_agent_try parse rd requestedId of
             Inr res \<Rightarrow> res
           | Inl err \<Rightarrow> get_agent_catch err))"

text \<open>
  Lines 39 to 41: \<^verbatim>\<open>decodeURIComponent\<close> (a parameter, \<open>None\<close> where it throws a
  \<^verbatim>\<open>URIError\<close>) runs before the \<^verbatim>\<open>try\<close>, so on a malformed escape the handler ends without
  touching the file and without sending a response (\<open>None\<close>).
\<close>

definition get_agent_route ::
  "(string \<Rightarrow> string option) \<Rightarrow> (string \<Rightarrow> json option) \<Rightarrow> disk \<Rightarrow> string \<Rightarrow>
   disk \<times> response option" where
  "get_agent_route decodeURIComponent parse d param =
     (case decodeURIComponent param of
        None \<Rightarrow> (d, None)
      | Some requestedId \<Rightarrow>
          (let (d1, res) = get_agent parse d requestedId in (d1, Some res)))"

section \<open>POST /api/submit-agent\<close>

text \<open>
  The test of line 87, \<^verbatim>\<open>!newAgent || typeof newAgent !== 'object' || !newAgent.name\<close>.
  The property read is reached for a truthy value only, where it cannot throw
  (\<open>member_truthy\<close>).
\<close>

definition rejected :: "json \<Rightarrow> bool" where
  "rejected newAgent =
     (if \<not> truthy newAgent then True
      else if typeof newAgent \<noteq> ''object'' then True
      else (case member newAgent ''name'' of
              Inl err \<Rightarrow> True
            | Inr name \<Rightarrow> \<not> truthy_opt name))"

text \<open>Line 92, \<^verbatim>\<open>newAgent.approved = false\<close>.\<close>

definition prepare :: "json \<Rightarrow> json" where
  "prepare newAgent = assign newAgent ''approved'' (JBool False)"

text \<open>
  Lines 100 to 123: the inner \<^verbatim>\<open>try\<close> with its \<^verbatim>\<open>catch\<close>, given the outcome of the read.
  The result is the array \<^verbatim>\<open>agents\<close> that line 133 pushes onto.
\<close>

definition load_agents :: "(string \<Rightarrow> json option) \<Rightarrow> exn + string \<Rightarrow> exn + json list" where
  "load_agents parse rd =
     (case (case rd of
              Inl err \<Rightarrow> Inl err
            | Inr data \<Rightarrow>
                (case JSON_parse parse data of
                   Inl err \<Rightarrow> Inl err
                 | Inr agents \<Rightarrow>
                     Inr (if \<not> Array_isArray agents then [] else elements agents))) of
        Inr agents \<Rightarrow> Inr agents
      | Inl readError \<Rightarrow>
          (if readError = ENOENT then Inr []
           else if readError = SyntaxError then Inl ParseFailure
           else Inl readError))"

text \<open>Lines 140 to 148.\<close>

definition submit_agent_catch :: "exn \<Rightarrow> response" where
  "submit_agent_catch err =
     (if err = ParseFailure then
        \<lparr>status = 500,
         body = message ''Failed to parse existing agent data. Cannot add new agent.''\<rparr>
      else \<lparr>status = 500, body = message ''Error saving agent data''\<rparr>)"

definition created :: "json \<Rightarrow> response" where
  "created newAgent =
     \<lparr>status = 201,
      body = JObj [(''message'', JStr ''Agent submitted successfully and awaiting approval''),
                   (''agent'', newAgent)]\<rparr>"

definition submit_agent ::
  "(string \<Rightarrow> json option) \<Rightarrow> (json \<Rightarrow> string) \<Rightarrow> disk \<Rightarrow> json \<Rightarrow> disk \<times> response" where
  "submit_agent parse stringify d newAgent =
     (if rejected newAgent then
        (d, \<lparr>status = 400, body = message ''Invalid agent data submitted''\<rparr>)
      else
        (let newAgent' = prepare newAgent;
             (d1, rd) = readFile d
         in case load_agents parse rd of
              Inl err \<Rightarrow> (d1, submit_agent_catch err)
            | Inr agents \<Rightarrow>
                (let (d2, wr) = writeFile d1 (stringify (JArr (agents @ [newAgent'])))
                 in case wr of
                      Inl err \<Rightarrow> (d2, submit_agent_catch err)
                    | Inr u \<Rightarrow> (d2, created newAgent'))))"

section \<open>A concrete store\<close>

text \<open>
  The scenario of the specification: two stored agents, the first approved, and the
  payload \<^verbatim>\<open>{"name":"Baz"}\<close>. \<open>demo_parse\<close> is \<^verbatim>\<open>JSON.parse\<close> restricted to the texts below
  (every other text counts as malformed) and \<open>demo_stringify\<close> is
  \<^verbatim>\<open>JSON.stringify(v, null, 2)\<close> on the arrays a submission writes here.
\<close>

definition foo_agent :: json where
  "foo_agent = JObj [(''id'', JStr ''a1''), (''name'', JStr ''Foo''), (''approved'', JBool True)]"

definition bar_agent :: json where
  "bar_agent = JObj [(''id'', JStr ''a2''), (''name'', JStr ''Bar''), (''approved'', JBool False)]"

definition baz_payload :: json where
  "baz_payload = JObj [(''name'', JStr ''Baz'')]"

definition baz_agent :: json where
  "baz_agent = JObj [(''name'', JStr ''Baz''), (''approved'', JBool False)]"

definition self_approved_payload :: json where
  "self_approved_payload = JObj [(''name'', JStr ''Baz''), (''approved'', JBool True)]"

definition quoted_agent :: json where
  "quoted_agent = JObj [(''id'', JStr ''q1''), (''name'', JStr ''Quoted''),
                        (''approved'', JStr ''true'')]"

definition numbered_agent :: json where
  "numbered_agent = JObj [(''id'', JStr ''n1''), (''name'', JStr ''Numbered''),
                          (''approved'', JNum 1)]"

definition lenient_text :: string where
  \<open>lenient_text =
     ''[{"id":"q1","name":"Quoted","approved":"true"},{"id":"n1","name":"Numbered","approved":1}]''\<close>

definition store_text :: string where
  \<open>store_text =
     ''[{"id":"a1","name":"Foo","approved":true},{"id":"a2","name":"Bar","approved":false}]''\<close>

definition truncated_text :: string where
  \<open>truncated_text = ''[{"id":"a1","name":"Foo","appro''\<close>

definition object_text :: string where
  \<open>object_text = ''{"agents":[]}''\<close>

fun join_lines :: "string list \<Rightarrow> string" where
  "join_lines [] = []"
| "join_lines [l] = l"
| "join_lines (l # ls) = l @ CHR 0x0A # join_lines ls"

definition one_text :: string where
  \<open>one_text = join_lines
     [''['',
      ''  {'',
      ''    "name": "Baz",'',
      ''    "approved": false'',
      ''  }'',
      '']'']\<close>

definition three_text :: string where
  \<open>three_text = join_lines
     [''['',
      ''  {'',
      ''    "id": "a1",'',
      ''    "name": "Foo",'',
      ''    "approved": true'',
      ''  },'',
      ''  {'',
      ''    "id": "a2",'',
      ''    "name": "Bar",'',
      ''    "approved": false'',
      ''  },'',
      ''  {'',
      ''    "name": "Baz",'',
      ''    "approved": false'',
      ''  }'',
      '']'']\<close>

definition four_text :: string where
  \<open>four_text = join_lines
     [''['',
      ''  {'',
      ''    "id": "a1",'',
      ''    "name": "Foo",'',
      ''    "approved": true'',
      ''  },'',
      ''  {'',
      ''    "id": "a2",'',
      ''    "name": "Bar",'',
      ''    "approved": false'',
      ''  },'',
      ''  {'',
      ''    "name": "Baz",'',
      ''    "approved": false'',
      ''  },'',
      ''  {'',
      ''    "name": "Baz",'',
      ''    "approved": false'',
      ''  }'',
      '']'']\<close>

definition demo_parse :: "string \<Rightarrow> json option" where
  "demo_parse s =
     (if s = store_text then Some (JArr [foo_agent, bar_agent])
      else if s = lenient_text then Some (JArr [quoted_agent, numbered_agent])
      else if s = object_text then Some (JObj [(''agents'', JArr [])])
      else if s = one_text then Some (JArr [baz_agent])
      else if s = three_text then Some (JArr [foo_agent, bar_agent, baz_agent])
      else None)"

definition demo_stringify :: "json \<Rightarrow> string" where
  "demo_stringify v =
     (if v = JArr [baz_agent] then one_text
      else if v = JArr [foo_agent, bar_agent, baz_agent] then three_text
      else if v = JArr [foo_agent, bar_agent, baz_agent, baz_agent] then four_text
      else ''null'')"

definition disk_with :: "string option \<Rightarrow> disk" where
  "disk_with c = \<lparr>content = c, read_fault = False, write_fault = False, io_trace = []\<rparr>"

section \<open>Helper lemmas\<close>

lemma member_truthy: "truthy x \<Longrightarrow> member x k = Inr (own_property x k)"
  by (auto simp: member_def)

lemma member_not_null: "x \<noteq> JNull \<Longrightarrow> member x k = Inr (own_property x k)"
  by (simp add: member_def)

lemma approved_test_not_null:
  "x \<noteq> JNull \<Longrightarrow> approved_test x = Inr (own_property x ''approved'' = Some (JBool True))"
  by (simp add: approved_test_def member_not_null)

lemma id_and_approved_test_not_null:
  "x \<noteq> JNull \<Longrightarrow>
   id_and_approved_test i x =
     Inr (own_property x ''id'' = Some (JStr i) \<and> own_property x ''approved'' = Some (JBool True))"
  by (simp add: id_and_approved_test_def member_not_null)

lemma approved_test_True:
  "approved_test x = Inr True \<Longrightarrow> own_property x ''approved'' = Some (JBool True)"
  by (auto simp: approved_test_def member_def split: if_splits)

lemma id_and_approved_test_True:
  "id_and_approved_test i x = Inr True \<Longrightarrow>
   own_property x ''id'' = Some (JStr i) \<and> own_property x ''approved'' = Some (JBool True)"
  by (auto simp: id_and_approved_test_def member_def split: if_splits)

lemma own_property_truthy: "own_property x k = Some v \<Longrightarrow> truthy x"
  by (cases x) simp_all

lemma filter_js_no_throw:
  "\<forall>x \<in> set xs. p x = Inr (q x) \<Longrightarrow> filter_js p xs = Inr (filter q xs)"
  by (induction xs) simp_all

lemma filter_js_kept:
  "filter_js p xs = Inr ys \<Longrightarrow> y \<in> set ys \<Longrightarrow> p y = Inr True"
proof (induction xs arbitrary: ys)
  case Nil
  then show ?case by simp
next
  case (Cons x xs)
  then show ?case
    by (auto split: sum.splits if_splits)
qed

lemma find_js_no_throw:
  "\<forall>x \<in> set xs. p x = Inr (q x) \<Longrightarrow> find_js p xs = Inr (List.find q xs)"
  by (induction xs) simp_all

lemma find_js_hit:
  "find_js p xs = Inr (Some a) \<Longrightarrow> p a = Inr True"
  by (induction xs) (auto split: sum.splits if_splits)

lemma filter_js_approved:
  "JNull \<notin> set xs \<Longrightarrow>
   filter_js approved_test xs =
     Inr (filter (\<lambda>a. own_property a ''approved'' = Some (JBool True)) xs)"
  by (rule filter_js_no_throw) (metis approved_test_not_null)

lemma find_js_id_and_approved:
  "JNull \<notin> set xs \<Longrightarrow>
   find_js (id_and_approved_test i) xs =
     Inr (List.find (\<lambda>a. own_property a ''id'' = Some (JStr i) \<and>
                          own_property a ''approved'' = Some (JBool True)) xs)"
  by (rule find_js_no_throw) (metis id_and_approved_test_not_null)

lemma filter_js_null_element:
  "JNull \<in> set xs \<Longrightarrow> filter_js approved_test xs = Inl TypeError"
proof (induction xs)
  case Nil
  then show ?case by simp
next
  case (Cons x xs)
  show ?case
  proof (cases "x = JNull")
    case True
    then show ?thesis
      by (simp add: approved_test_def member_def)
  next
    case False
    with Cons show ?thesis
      by (simp add: approved_test_not_null)
  qed
qed

lemma readFile_data:
  "content d = Some data \<Longrightarrow> \<not> read_fault d \<Longrightarrow>
   readFile d = (d\<lparr>io_trace := io_trace d @ [ReadFile]\<rparr>, Inr data)"
  by (simp add: readFile_def)


lemma list_agents_array:
  "content d = Some data \<Longrightarrow> \<not> read_fault d \<Longrightarrow> parse data = Some (JArr S) \<Longrightarrow>
   list_agents parse d =
     (d\<lparr>io_trace := io_trace d @ [ReadFile]\<rparr>,
      case filter_js approved_test S of
        Inl err \<Rightarrow> list_agents_catch err
      | Inr ys \<Rightarrow> \<lparr>status = 200, body = JArr ys\<rparr>)"
  by (simp add: list_agents_def readFile_data list_agents_try_def JSON_parse_def
           split: sum.splits)

lemma list_agents_null_element:
  "content d = Some data \<Longrightarrow> \<not> read_fault d \<Longrightarrow> parse data = Some (JArr S) \<Longrightarrow>
   JNull \<in> set S \<Longrightarrow>
   snd (list_agents parse d) = \<lparr>status = 500, body = message ''Error fetching agents''\<rparr>"
  by (simp add: list_agents_array filter_js_null_element list_agents_catch_def)

lemma get_agent_route_decoded:
  "decodeURIComponent param = Some i \<Longrightarrow>
   get_agent_route decodeURIComponent parse d param =
     (fst (get_agent parse d i), Some (snd (get_agent parse d i)))"
  by (simp add: get_agent_route_def split_beta)

lemma get_agent_array:
  "content d = Some data \<Longrightarrow> \<not> read_fault d \<Longrightarrow> parse data = Some (JArr S) \<Longrightarrow>
   get_agent parse d i =
     (d\<lparr>io_trace := io_trace d @ [ReadFile]\<rparr>,
      case find_js (id_and_approved_test i) S of
        Inl err \<Rightarrow> get_agent_catch err
      | Inr agent \<Rightarrow>
          (case agent of
             Some found \<Rightarrow>
               (if truthy found then \<lparr>status = 200, body = found\<rparr>
                else \<lparr>status = 404, body = message ''Agent not found or not approved''\<rparr>)
           | None \<Rightarrow> \<lparr>status = 404, body = message ''Agent not found or not approved''\<rparr>))"
  by (simp add: get_agent_def readFile_data get_agent_try_def JSON_parse_def
           split: sum.splits option.splits)

lemma get_agent_no_null:
  assumes "content d = Some data" and "\<not> read_fault d" and "parse data = Some (JArr S)"
    and "JNull \<notin> set S"
  shows "snd (get_agent parse d i) =
     (case List.find (\<lambda>a. own_property a ''id'' = Some (JStr i) \<and>
                           own_property a ''approved'' = Some (JBool True)) S of
        Some a \<Rightarrow> \<lparr>status = 200, body = a\<rparr>
      | None \<Rightarrow> \<lparr>status = 404, body = message ''Agent not found or not approved''\<rparr>)"
proof -
  let ?hit = "\<lambda>a. own_property a ''id'' = Some (JStr i) \<and>
                  own_property a ''approved'' = Some (JBool True)"
  have found: "find_js (id_and_approved_test i) S = Inr (List.find ?hit S)"
    using assms(4) by (rule find_js_id_and_approved)
  show ?thesis
  proof (cases "List.find ?hit S")
    case None
    with found assms(1-3) show ?thesis
      by (simp add: get_agent_array)
  next
    case (Some a)
    then have "?hit a"
      by (auto simp: find_Some_iff)
    then have "truthy a"
      by (auto intro: own_property_truthy)
    with found Some assms(1-3) show ?thesis
      by (simp add: get_agent_array)
  qed
qed

lemma rejected_only_objects_pass:
  "\<not> rejected p \<longleftrightarrow> (\<exists>kvs. p = JObj kvs \<and> truthy_opt (map_of kvs ''name''))"
  by (cases p) (simp_all add: rejected_def member_def)

lemma map_of_set_property_same: "map_of (set_property k v kvs) k = Some v"
  by (induction kvs) auto

lemma map_of_set_property_other:
  "k' \<noteq> k \<Longrightarrow> map_of (set_property k v kvs) k' = map_of kvs k'"
  by (induction kvs) auto

lemma prepare_approved:
  "\<not> rejected p \<Longrightarrow> own_property (prepare p) ''approved'' = Some (JBool False)"
  by (auto simp: rejected_only_objects_pass prepare_def map_of_set_property_same)

lemma prepare_other_fields:
  "k \<noteq> ''approved'' \<Longrightarrow> own_property (prepare p) k = own_property p k"
  by (cases p) (simp_all add: prepare_def map_of_set_property_other)

lemma prepare_not_null: "\<not> rejected p \<Longrightarrow> prepare p \<noteq> JNull"
  by (auto simp: rejected_only_objects_pass prepare_def)

lemma load_agents_array:
  "content d = Some data \<Longrightarrow> \<not> read_fault d \<Longrightarrow> parse data = Some (JArr S) \<Longrightarrow>
   load_agents parse (snd (readFile d)) = Inr S"
  by (simp add: load_agents_def readFile_def JSON_parse_def)

lemma load_agents_non_array:
  "content d = Some data \<Longrightarrow> \<not> read_fault d \<Longrightarrow> parse data = Some v \<Longrightarrow>
   \<not> Array_isArray v \<Longrightarrow> load_agents parse (snd (readFile d)) = Inr []"
  by (simp add: load_agents_def readFile_def JSON_parse_def)


lemma load_agents_malformed:
  "content d = Some data \<Longrightarrow> \<not> read_fault d \<Longrightarrow> parse data = None \<Longrightarrow>
   load_agents parse (snd (readFile d)) = Inl ParseFailure"
  by (simp add: load_agents_def readFile_def JSON_parse_def)

lemma load_agents_read_fault:
  "read_fault d \<Longrightarrow> load_agents parse (snd (readFile d)) = Inl IOError"
  by (simp add: load_agents_def readFile_def)

lemma submit_agent_rejected:
  "rejected p \<Longrightarrow>
   submit_agent parse stringify d p =
     (d, \<lparr>status = 400, body = message ''Invalid agent data submitted''\<rparr>)"
  by (simp add: submit_agent_def)

lemma submit_agent_load_fails:
  "\<not> rejected p \<Longrightarrow> load_agents parse (snd (readFile d)) = Inl err \<Longrightarrow>
   submit_agent parse stringify d p =
     (d\<lparr>io_trace := io_trace d @ [ReadFile]\<rparr>, submit_agent_catch err)"
  by (simp add: submit_agent_def readFile_def Let_def)

lemma submit_agent_write_fails:
  "\<not> rejected p \<Longrightarrow> load_agents parse (snd (readFile d)) = Inr agents \<Longrightarrow> write_fault d \<Longrightarrow>
   submit_agent parse stringify d p =
     (d\<lparr>io_trace := io_trace d @
          [ReadFile, WriteFile (stringify (JArr (agents @ [prepare p])))]\<rparr>,
      submit_agent_catch IOError)"
  by (simp add: submit_agent_def readFile_def writeFile_def Let_def)

lemma submit_agent_ok:
  "\<not> rejected p \<Longrightarrow> load_agents parse (snd (readFile d)) = Inr agents \<Longrightarrow> \<not> write_fault d \<Longrightarrow>
   submit_agent parse stringify d p =
     (d\<lparr>content := Some (stringify (JArr (agents @ [prepare p]))),
        io_trace := io_trace d @
          [ReadFile, WriteFile (stringify (JArr (agents @ [prepare p])))]\<rparr>,
      created (prepare p))"
  by (simp add: submit_agent_def readFile_def writeFile_def Let_def)

lemma status_submit_agent_catch: "status (submit_agent_catch err) = 500"
  by (simp add: submit_agent_catch_def)

lemma submit_agent_created:
  assumes "submit_agent parse stringify d p = (d', res)" and "status res = 201"
  shows "\<not> rejected p \<and> \<not> write_fault d \<and>
         (\<exists>agents. load_agents parse (snd (readFile d)) = Inr agents)"
proof -
  have valid: "\<not> rejected p"
    using assms by (auto simp: submit_agent_rejected)
  have loaded: "\<exists>agents. load_agents parse (snd (readFile d)) = Inr agents"
  proof (cases "load_agents parse (snd (readFile d))")
    case (Inl err)
    with valid assms show ?thesis
      by (auto simp: submit_agent_load_fails status_submit_agent_catch)
  next
    case (Inr agents)
    then show ?thesis by blast
  qed
  have "\<not> write_fault d"
  proof
    assume "write_fault d"
    with valid loaded assms show False
      by (auto simp: submit_agent_write_fails status_submit_agent_catch)
  qed
  with valid loaded show ?thesis by blast
qed

section \<open>Reading: the approval filter\<close>

text \<open>
  C2. When the backing file holds a JSON array \<open>S\<close> of agent records, list-approved
  answers 200 with exactly the subsequence of \<open>S\<close> whose \<^verbatim>\<open>approved\<close> field is the boolean
  true, in stored order. (The records of a store are objects; the proof needs only that no
  element of \<open>S\<close> is \<^verbatim>\<open>null\<close>, on which the callback of line 22 throws.)
\<close>

theorem list_agents_approved_subsequence:
  assumes "content d = Some data" and "\<not> read_fault d"
    and "parse data = Some (JArr S)" and "JNull \<notin> set S"
  shows "list_agents parse d =
     (d\<lparr>io_trace := io_trace d @ [ReadFile]\<rparr>,
      \<lparr>status = 200,
       body = JArr (filter (\<lambda>a. own_property a ''approved'' = Some (JBool True)) S)\<rparr>)"
  using assms by (simp add: list_agents_array filter_js_approved)

theorem list_agents_approved_subsequence_witness:
  "list_agents demo_parse (disk_with (Some store_text)) =
     (\<lparr>content = Some store_text, read_fault = False, write_fault = False,
       io_trace = [ReadFile]\<rparr>,
      \<lparr>status = 200, body = JArr [foo_agent]\<rparr>)"
proof -
  have "content (disk_with (Some store_text)) = Some store_text"
    and "\<not> read_fault (disk_with (Some store_text))"
    and "demo_parse store_text = Some (JArr [foo_agent, bar_agent])"
    and "JNull \<notin> set [foo_agent, bar_agent]"
    by (simp_all add: disk_with_def demo_parse_def foo_agent_def bar_agent_def)
  from list_agents_approved_subsequence [where parse = demo_parse, OF this]
  show ?thesis
    by (simp add: disk_with_def foo_agent_def bar_agent_def)
qed

text \<open>
  C1. When the backing file holds a JSON array \<open>S\<close> of agent records, get-approved-by-id
  with the identifier \<open>i\<close> answers 200 if and only if some record of \<open>S\<close> has an \<^verbatim>\<open>id\<close>
  field equal to the string \<open>i\<close> and an \<^verbatim>\<open>approved\<close> field equal to the boolean true; the
  body is then the record of lowest index with both; otherwise the answer is one and the
  same 404, whether the identifier is absent or carried by unapproved records only.
\<close>

theorem get_agent_first_approved_match:
  assumes "content d = Some data" and "\<not> read_fault d"
    and "parse data = Some (JArr S)" and "JNull \<notin> set S"
  shows "(let hit = (\<lambda>a. own_property a ''id'' = Some (JStr i) \<and>
                         own_property a ''approved'' = Some (JBool True));
              res = snd (get_agent parse d i)
          in (status res = 200 \<longleftrightarrow> (\<exists>a \<in> set S. hit a)) \<and>
             (\<forall>n < length S. hit (S ! n) \<and> (\<forall>m < n. \<not> hit (S ! m)) \<longrightarrow>
                res = \<lparr>status = 200, body = S ! n\<rparr>) \<and>
             ((\<forall>a \<in> set S. \<not> hit a) \<longrightarrow>
                res = \<lparr>status = 404, body = message ''Agent not found or not approved''\<rparr>))"
proof -
  let ?hit = "\<lambda>a. own_property a ''id'' = Some (JStr i) \<and>
                  own_property a ''approved'' = Some (JBool True)"
  let ?res = "snd (get_agent parse d i)"
  have res: "?res = (case List.find ?hit S of
                       Some a \<Rightarrow> \<lparr>status = 200, body = a\<rparr>
                     | None \<Rightarrow> \<lparr>status = 404,
                                body = message ''Agent not found or not approved''\<rparr>)"
    using assms by (rule get_agent_no_null)
  have none: "?res = \<lparr>status = 404, body = message ''Agent not found or not approved''\<rparr>"
    if "\<forall>a \<in> set S. \<not> ?hit a"
  proof -
    from that have "List.find ?hit S = None"
      by (simp add: find_None_iff)
    with res show ?thesis by simp
  qed
  have first: "?res = \<lparr>status = 200, body = S ! n\<rparr>"
    if "n < length S" and "?hit (S ! n)" and "\<forall>m < n. \<not> ?hit (S ! m)" for n
  proof -
    from that have "List.find ?hit S = Some (S ! n)"
      unfolding find_Some_iff by blast
    with res show ?thesis by simp
  qed
  have iff: "status ?res = 200 \<longleftrightarrow> (\<exists>a \<in> set S. ?hit a)"
  proof (cases "List.find ?hit S")
    case None
    then have "\<forall>a \<in> set S. \<not> ?hit a"
      by (simp add: find_None_iff)
    with res None show ?thesis by auto
  next
    case (Some a)
    then have "a \<in> set S" and "?hit a"
      by (auto simp: find_Some_iff)
    with res Some show ?thesis by auto
  qed
  from iff first none show ?thesis
    unfolding Let_def by blast
qed

theorem get_agent_first_approved_match_witness:
  "snd (get_agent demo_parse (disk_with (Some store_text)) ''a1'') =
     \<lparr>status = 200, body = foo_agent\<rparr> \<and>
   snd (get_agent demo_parse (disk_with (Some store_text)) ''a2'') =
     \<lparr>status = 404, body = message ''Agent not found or not approved''\<rparr> \<and>
   snd (get_agent demo_parse (disk_with (Some store_text)) ''A1'') =
     \<lparr>status = 404, body = message ''Agent not found or not approved''\<rparr>"
proof -
  have h: "content (disk_with (Some store_text)) = Some store_text"
    "\<not> read_fault (disk_with (Some store_text))"
    "demo_parse store_text = Some (JArr [foo_agent, bar_agent])"
    "JNull \<notin> set [foo_agent, bar_agent]"
    by (simp_all add: disk_with_def demo_parse_def foo_agent_def bar_agent_def)
  note t = get_agent_first_approved_match [where parse = demo_parse, OF h, unfolded Let_def]
  have a1: "snd (get_agent demo_parse (disk_with (Some store_text)) ''a1'') =
      \<lparr>status = 200, body = foo_agent\<rparr>"
    using t [of "''a1''", THEN conjunct2, THEN conjunct1, THEN spec, of 0]
    by (simp add: foo_agent_def)
  have a2: "snd (get_agent demo_parse (disk_with (Some store_text)) ''a2'') =
      \<lparr>status = 404, body = message ''Agent not found or not approved''\<rparr>"
    using t [of "''a2''", THEN conjunct2, THEN conjunct2]
    by (simp add: foo_agent_def bar_agent_def)
  have a3: "snd (get_agent demo_parse (disk_with (Some store_text)) ''A1'') =
      \<lparr>status = 404, body = message ''Agent not found or not approved''\<rparr>"
    using t [of "''A1''", THEN conjunct2, THEN conjunct2]
    by (simp add: foo_agent_def bar_agent_def)
  from a1 a2 a3 show ?thesis by simp
qed

section \<open>Submitting\<close>

text \<open>
  C7. A payload that is \<^verbatim>\<open>null\<close>, is not an object (a primitive, or an array), or has no
  \<^verbatim>\<open>name\<close> field or an empty one, is answered with 400, and the backing file is neither read
  nor written: the disk, with its trace of accesses, is as before.
\<close>

theorem submit_agent_invalid_payload:
  assumes "p = JNull \<or> typeof p \<noteq> ''object'' \<or> Array_isArray p \<or>
           own_property p ''name'' = None \<or> own_property p ''name'' = Some (JStr [])"
  shows "submit_agent parse stringify d p =
     (d, \<lparr>status = 400, body = message ''Invalid agent data submitted''\<rparr>)"
proof -
  have "rejected p"
    using assms by (cases p) (auto simp: rejected_def member_def)
  then show ?thesis
    by (rule submit_agent_rejected)
qed

theorem submit_agent_invalid_payload_witness:
  "submit_agent demo_parse demo_stringify (disk_with (Some store_text)) (JObj [(''name'', JStr [])]) =
     (disk_with (Some store_text),
      \<lparr>status = 400, body = message ''Invalid agent data submitted''\<rparr>) \<and>
   submit_agent demo_parse demo_stringify (disk_with (Some store_text)) (JArr [baz_payload]) =
     (disk_with (Some store_text),
      \<lparr>status = 400, body = message ''Invalid agent data submitted''\<rparr>) \<and>
   submit_agent demo_parse demo_stringify (disk_with (Some store_text)) JNull =
     (disk_with (Some store_text),
      \<lparr>status = 400, body = message ''Invalid agent data submitted''\<rparr>)"
  using submit_agent_invalid_payload [of "JObj [(''name'', JStr [])]"]
    submit_agent_invalid_payload [of "JArr [baz_payload]"]
    submit_agent_invalid_payload [of JNull]
  by simp

text \<open>
  C3. A submission whose payload passes the validation, on a file that loads (to the
  sequence \<open>agents\<close>) and with the write not failing, answers 201; line 92 has left the
  record with \<^verbatim>\<open>approved\<close> equal to the boolean false, whatever the client sent (the other
  fields are as sent); the \<^verbatim>\<open>agent\<close> of the response is that record, and the file then holds
  the text of \<open>agents\<close> with that record as last element. Conversely every submission
  answered with 201 echoes and stores that record.
\<close>

theorem submit_agent_forces_unapproved:
  assumes "\<not> rejected p" and "load_agents parse (snd (readFile d)) = Inr agents"
    and "\<not> write_fault d"
  shows "submit_agent parse stringify d p =
       (d\<lparr>content := Some (stringify (JArr (agents @ [prepare p]))),
          io_trace := io_trace d @
            [ReadFile, WriteFile (stringify (JArr (agents @ [prepare p])))]\<rparr>,
        \<lparr>status = 201,
         body = JObj [(''message'', JStr ''Agent submitted successfully and awaiting approval''),
                      (''agent'', prepare p)]\<rparr>) \<and>
     own_property (prepare p) ''approved'' = Some (JBool False) \<and>
     own_property (last (agents @ [prepare p])) ''approved'' = Some (JBool False) \<and>
     (\<forall>k. k \<noteq> ''approved'' \<longrightarrow> own_property (prepare p) k = own_property p k) \<and>
     (\<forall>e e' res. submit_agent parse stringify e p = (e', res) \<and> status res = 201 \<longrightarrow>
        own_property (body res) ''agent'' = Some (prepare p) \<and>
        (\<exists>loaded. load_agents parse (snd (readFile e)) = Inr loaded \<and>
                   content e' = Some (stringify (JArr (loaded @ [prepare p])))))"
proof -
  have run: "submit_agent parse stringify d p =
       (d\<lparr>content := Some (stringify (JArr (agents @ [prepare p]))),
          io_trace := io_trace d @
            [ReadFile, WriteFile (stringify (JArr (agents @ [prepare p])))]\<rparr>,
        \<lparr>status = 201,
         body = JObj [(''message'', JStr ''Agent submitted successfully and awaiting approval''),
                      (''agent'', prepare p)]\<rparr>)"
    using submit_agent_ok [OF assms, of stringify] by (simp add: created_def)
  have stored: "own_property (body res) ''agent'' = Some (prepare p) \<and>
      (\<exists>loaded. load_agents parse (snd (readFile e)) = Inr loaded \<and>
                 content e' = Some (stringify (JArr (loaded @ [prepare p]))))"
    if sub: "submit_agent parse stringify e p = (e', res)" and ok: "status res = 201"
    for e e' res
  proof -
    from submit_agent_created [OF sub ok]
    obtain loaded where w: "\<not> write_fault e"
      and l: "load_agents parse (snd (readFile e)) = Inr loaded"
      by blast
    from submit_agent_ok [OF assms(1) l w, of stringify] sub
    have "e' = e\<lparr>content := Some (stringify (JArr (loaded @ [prepare p]))),
                  io_trace := io_trace e @
                    [ReadFile, WriteFile (stringify (JArr (loaded @ [prepare p])))]\<rparr>"
      and "res = created (prepare p)"
      by simp_all
    with l show ?thesis
      by (auto simp: created_def)
  qed
  have forced: "own_property (prepare p) ''approved'' = Some (JBool False)"
    using assms(1) by (rule prepare_approved)
  then have last: "own_property (last (agents @ [prepare p])) ''approved'' = Some (JBool False)"
    by simp
  have others: "\<forall>k. k \<noteq> ''approved'' \<longrightarrow> own_property (prepare p) k = own_property p k"
    by (simp add: prepare_other_fields)
  from run forced last others stored show ?thesis
    by blast
qed

theorem submit_agent_forces_unapproved_witness:
  "\<not> rejected self_approved_payload \<and>
   own_property self_approved_payload ''approved'' = Some (JBool True) \<and>
   own_property (prepare self_approved_payload) ''approved'' = Some (JBool False) \<and>
   submit_agent demo_parse demo_stringify (disk_with (Some store_text)) self_approved_payload =
     (\<lparr>content = Some three_text, read_fault = False, write_fault = False,
       io_trace = [ReadFile, WriteFile three_text]\<rparr>,
      \<lparr>status = 201,
       body = JObj [(''message'', JStr ''Agent submitted successfully and awaiting approval''),
                    (''agent'', baz_agent)]\<rparr>) \<and>
   submit_agent demo_parse demo_stringify (disk_with None) self_approved_payload =
     (\<lparr>content = Some one_text, read_fault = False, write_fault = False,
       io_trace = [ReadFile, WriteFile one_text]\<rparr>,
      \<lparr>status = 201,
       body = JObj [(''message'', JStr ''Agent submitted successfully and awaiting approval''),
                    (''agent'', baz_agent)]\<rparr>)"
proof -
  have valid: "\<not> rejected self_approved_payload"
    by (simp add: rejected_def member_def self_approved_payload_def)
  have prep: "prepare self_approved_payload = baz_agent"
    by (simp add: prepare_def self_approved_payload_def baz_agent_def)
  have loaded: "load_agents demo_parse (snd (readFile (disk_with (Some store_text)))) =
      Inr [foo_agent, bar_agent]"
    by (simp add: load_agents_def readFile_def JSON_parse_def disk_with_def demo_parse_def)
  have fresh: "load_agents demo_parse (snd (readFile (disk_with None))) = Inr []"
    by (simp add: load_agents_def readFile_def disk_with_def)
  have w: "\<not> write_fault (disk_with (Some store_text))" "\<not> write_fault (disk_with None)"
    by (simp_all add: disk_with_def)
  have three: "demo_stringify (JArr [foo_agent, bar_agent, baz_agent]) = three_text"
    by (simp add: demo_stringify_def foo_agent_def baz_agent_def)
  have one: "demo_stringify (JArr [baz_agent]) = one_text"
    by (simp add: demo_stringify_def)
  note t1 = submit_agent_forces_unapproved [OF valid loaded w(1), of demo_stringify]
  note t2 = submit_agent_forces_unapproved [OF valid fresh w(2), of demo_stringify]
  have existing: "submit_agent demo_parse demo_stringify (disk_with (Some store_text))
       self_approved_payload =
     (\<lparr>content = Some three_text, read_fault = False, write_fault = False,
       io_trace = [ReadFile, WriteFile three_text]\<rparr>,
      \<lparr>status = 201,
       body = JObj [(''message'', JStr ''Agent submitted successfully and awaiting approval''),
                    (''agent'', baz_agent)]\<rparr>)"
    using t1 [THEN conjunct1] by (simp add: prep three disk_with_def)
  have missing: "submit_agent demo_parse demo_stringify (disk_with None) self_approved_payload =
     (\<lparr>content = Some one_text, read_fault = False, write_fault = False,
       io_trace = [ReadFile, WriteFile one_text]\<rparr>,
      \<lparr>status = 201,
       body = JObj [(''message'', JStr ''Agent submitted successfully and awaiting approval''),
                    (''agent'', baz_agent)]\<rparr>)"
    using t2 [THEN conjunct1] by (simp add: prep one disk_with_def)
  have sent: "own_property self_approved_payload ''approved'' = Some (JBool True)"
    by (simp add: self_approved_payload_def)
  from valid sent t1 [THEN conjunct2, THEN conjunct1] existing missing show ?thesis
    by simp
qed

text \<open>
  C8. A submission whose payload passes the validation, on a store \<open>S\<close> and with the write
  not failing, answers 201 and writes \<open>S\<close> with the prepared record appended, whether or not
  \<open>S\<close> already holds an equal record. With the file read back as written, the store is then
  \<open>S\<close> followed by that record (the records of \<open>S\<close> in their places, one record more), and
  submitting the same payload again answers 201 once more and appends a second copy.
\<close>

theorem submit_agent_appends:
  assumes "content d = Some data" and "\<not> read_fault d" and "parse data = Some (JArr S)"
    and "\<not> rejected p" and "\<not> write_fault d"
  shows "(let stored = stringify (JArr (S @ [prepare p]));
              d' = d\<lparr>content := Some stored,
                      io_trace := io_trace d @ [ReadFile, WriteFile stored]\<rparr>;
              again = stringify (JArr (S @ [prepare p, prepare p]));
              answer = \<lparr>status = 201,
                        body = JObj [(''message'',
                                      JStr ''Agent submitted successfully and awaiting approval''),
                                     (''agent'', prepare p)]\<rparr>
          in submit_agent parse stringify d p = (d', answer) \<and>
             (parse stored = Some (JArr (S @ [prepare p])) \<longrightarrow>
                load_agents parse (snd (readFile d')) = Inr (S @ [prepare p]) \<and>
                submit_agent parse stringify d' p =
                  (d'\<lparr>content := Some again,
                      io_trace := io_trace d' @ [ReadFile, WriteFile again]\<rparr>,
                   answer)))"
proof -
  let ?stored = "stringify (JArr (S @ [prepare p]))"
  let ?d' = "d\<lparr>content := Some ?stored, io_trace := io_trace d @ [ReadFile, WriteFile ?stored]\<rparr>"
  let ?again = "stringify (JArr (S @ [prepare p, prepare p]))"
  have l: "load_agents parse (snd (readFile d)) = Inr S"
    using assms(1-3) by (rule load_agents_array)
  have first: "submit_agent parse stringify d p = (?d', created (prepare p))"
    using submit_agent_ok [OF assms(4) l assms(5), of stringify] by simp
  have second: "load_agents parse (snd (readFile ?d')) = Inr (S @ [prepare p]) \<and>
      submit_agent parse stringify ?d' p =
        (?d'\<lparr>content := Some ?again, io_trace := io_trace ?d' @ [ReadFile, WriteFile ?again]\<rparr>,
         created (prepare p))"
    if reread: "parse ?stored = Some (JArr (S @ [prepare p]))"
  proof -
    have c: "content ?d' = Some ?stored" and r: "\<not> read_fault ?d'" and w: "\<not> write_fault ?d'"
      using assms(2,5) by simp_all
    have l': "load_agents parse (snd (readFile ?d')) = Inr (S @ [prepare p])"
      using c r reread by (rule load_agents_array)
    from submit_agent_ok [OF assms(4) l' w, of stringify] l' show ?thesis
      by simp
  qed
  from first second show ?thesis
    by (simp add: Let_def created_def)
qed

theorem submit_agent_appends_witness:
  "submit_agent demo_parse demo_stringify (disk_with (Some store_text)) baz_payload =
     (\<lparr>content = Some three_text, read_fault = False, write_fault = False,
       io_trace = [ReadFile, WriteFile three_text]\<rparr>,
      \<lparr>status = 201,
       body = JObj [(''message'', JStr ''Agent submitted successfully and awaiting approval''),
                    (''agent'', baz_agent)]\<rparr>) \<and>
   submit_agent demo_parse demo_stringify
       \<lparr>content = Some three_text, read_fault = False, write_fault = False,
        io_trace = [ReadFile, WriteFile three_text]\<rparr> baz_payload =
     (\<lparr>content = Some four_text, read_fault = False, write_fault = False,
       io_trace = [ReadFile, WriteFile three_text, ReadFile, WriteFile four_text]\<rparr>,
      \<lparr>status = 201,
       body = JObj [(''message'', JStr ''Agent submitted successfully and awaiting approval''),
                    (''agent'', baz_agent)]\<rparr>) \<and>
   demo_stringify (JArr [foo_agent, bar_agent, baz_agent, baz_agent]) = four_text"
proof -
  have valid: "\<not> rejected baz_payload"
    by (simp add: rejected_def member_def baz_payload_def)
  have prep: "prepare baz_payload = baz_agent"
    by (simp add: prepare_def baz_payload_def baz_agent_def)
  have h: "content (disk_with (Some store_text)) = Some store_text"
    "\<not> read_fault (disk_with (Some store_text))"
    "demo_parse store_text = Some (JArr [foo_agent, bar_agent])"
    by (simp_all add: disk_with_def demo_parse_def)
  have w: "\<not> write_fault (disk_with (Some store_text))"
    by (simp add: disk_with_def)
  have three: "demo_stringify (JArr [foo_agent, bar_agent, baz_agent]) = three_text"
    by (simp add: demo_stringify_def foo_agent_def baz_agent_def)
  have four: "demo_stringify (JArr [foo_agent, bar_agent, baz_agent, baz_agent]) = four_text"
    by (simp add: demo_stringify_def foo_agent_def baz_agent_def)
  have reread: "demo_parse three_text = Some (JArr [foo_agent, bar_agent, baz_agent])"
    by (simp add: demo_parse_def three_text_def store_text_def lenient_text_def
          object_text_def one_text_def)
  from submit_agent_appends [where parse = demo_parse, OF h valid w, of demo_stringify]
    reread four
  show ?thesis
    by (simp add: Let_def prep three disk_with_def)
qed

section \<open>Missing, malformed and non-array backing files\<close>

lemma list_agents_catch_not_listing:
  "body (list_agents_catch err) = JArr xs \<Longrightarrow> xs = []"
  by (auto simp: list_agents_catch_def message_def split: if_splits)

lemma status_get_agent_catch: "status (get_agent_catch err) \<noteq> 200"
  by (simp add: get_agent_catch_def)

text \<open>
  C4. When the backing file exists and its text is not JSON, list-approved and
  get-approved-by-id answer 500, and a submission whose payload passes the validation
  answers 500 after a single read; no submission, valid or not, changes the text of the
  file or attempts a write.
\<close>

theorem malformed_store_is_fatal:
  assumes "content d = Some data" and "\<not> read_fault d" and "parse data = None"
  shows "list_agents parse d =
       (d\<lparr>io_trace := io_trace d @ [ReadFile]\<rparr>,
        \<lparr>status = 500, body = message ''Error parsing agent data file.''\<rparr>) \<and>
     get_agent parse d i =
       (d\<lparr>io_trace := io_trace d @ [ReadFile]\<rparr>,
        \<lparr>status = 500, body = message ''Error parsing agent data file.''\<rparr>) \<and>
     (\<not> rejected p \<longrightarrow>
        submit_agent parse stringify d p =
          (d\<lparr>io_trace := io_trace d @ [ReadFile]\<rparr>,
           \<lparr>status = 500,
            body = message ''Failed to parse existing agent data. Cannot add new agent.''\<rparr>)) \<and>
     content (fst (submit_agent parse stringify d p)) = content d \<and>
     (\<forall>w. WriteFile w \<in> set (io_trace (fst (submit_agent parse stringify d p))) \<longrightarrow>
          WriteFile w \<in> set (io_trace d))"
proof -
  have l: "list_agents parse d =
       (d\<lparr>io_trace := io_trace d @ [ReadFile]\<rparr>,
        \<lparr>status = 500, body = message ''Error parsing agent data file.''\<rparr>)"
    using assms
    by (simp add: list_agents_def readFile_data list_agents_try_def JSON_parse_def
          list_agents_catch_def)
  have g: "get_agent parse d i =
       (d\<lparr>io_trace := io_trace d @ [ReadFile]\<rparr>,
        \<lparr>status = 500, body = message ''Error parsing agent data file.''\<rparr>)"
    using assms
    by (simp add: get_agent_def readFile_data get_agent_try_def JSON_parse_def
          get_agent_catch_def)
  have s: "submit_agent parse stringify d p =
          (d\<lparr>io_trace := io_trace d @ [ReadFile]\<rparr>,
           \<lparr>status = 500,
            body = message ''Failed to parse existing agent data. Cannot add new agent.''\<rparr>)"
    if "\<not> rejected p"
    using that load_agents_malformed [where parse = parse, OF assms]
    by (simp add: submit_agent_load_fails submit_agent_catch_def)
  have unchanged: "content (fst (submit_agent parse stringify d p)) = content d \<and>
     (\<forall>w. WriteFile w \<in> set (io_trace (fst (submit_agent parse stringify d p))) \<longrightarrow>
          WriteFile w \<in> set (io_trace d))"
  proof (cases "rejected p")
    case True
    then show ?thesis
      by (simp add: submit_agent_rejected)
  next
    case False
    then show ?thesis
      by (simp add: s)
  qed
  from l g s unchanged show ?thesis
    by blast
qed

theorem malformed_store_is_fatal_witness:
  "status (snd (list_agents demo_parse (disk_with (Some truncated_text)))) = 500 \<and>
   status (snd (get_agent demo_parse (disk_with (Some truncated_text)) ''a1'')) = 500 \<and>
   submit_agent demo_parse demo_stringify (disk_with (Some truncated_text)) baz_payload =
     (\<lparr>content = Some truncated_text, read_fault = False, write_fault = False,
       io_trace = [ReadFile]\<rparr>,
      \<lparr>status = 500,
       body = message ''Failed to parse existing agent data. Cannot add new agent.''\<rparr>)"
proof -
  have h: "content (disk_with (Some truncated_text)) = Some truncated_text"
    "\<not> read_fault (disk_with (Some truncated_text))"
    "demo_parse truncated_text = None"
    by (simp_all add: disk_with_def demo_parse_def truncated_text_def store_text_def
          lenient_text_def object_text_def one_text_def three_text_def)
  have valid: "\<not> rejected baz_payload"
    by (simp add: rejected_def member_def baz_payload_def)
  from malformed_store_is_fatal [where parse = demo_parse, OF h, of "''a1''" baz_payload demo_stringify]
    valid
  show ?thesis
    by (simp add: disk_with_def)
qed



text \<open>
  C6. When the backing file holds JSON whose top-level value is not an array, list-approved
  answers 200 with the empty array, get-approved-by-id answers 500, and a submission whose
  payload passes the validation, the write not failing, starts from the empty sequence:
  it answers 201 and the file then holds the text of the one-element array with the
  prepared record.
\<close>

theorem non_array_store:
  assumes "content d = Some data" and "\<not> read_fault d"
    and "parse data = Some v" and "\<not> Array_isArray v"
  shows "list_agents parse d =
       (d\<lparr>io_trace := io_trace d @ [ReadFile]\<rparr>, \<lparr>status = 200, body = JArr []\<rparr>) \<and>
     get_agent parse d i =
       (d\<lparr>io_trace := io_trace d @ [ReadFile]\<rparr>,
        \<lparr>status = 500, body = message ''Error reading agent data.''\<rparr>) \<and>
     (\<not> rejected p \<and> \<not> write_fault d \<longrightarrow>
        submit_agent parse stringify d p =
          (d\<lparr>content := Some (stringify (JArr [prepare p])),
             io_trace := io_trace d @ [ReadFile, WriteFile (stringify (JArr [prepare p]))]\<rparr>,
           created (prepare p)))"
proof -
  have l: "list_agents parse d =
       (d\<lparr>io_trace := io_trace d @ [ReadFile]\<rparr>, \<lparr>status = 200, body = JArr []\<rparr>)"
    using assms
    by (simp add: list_agents_def readFile_data list_agents_try_def JSON_parse_def)
  have g: "get_agent parse d i =
       (d\<lparr>io_trace := io_trace d @ [ReadFile]\<rparr>,
        \<lparr>status = 500, body = message ''Error reading agent data.''\<rparr>)"
    using assms
    by (simp add: get_agent_def readFile_data get_agent_try_def JSON_parse_def)
  have s: "submit_agent parse stringify d p =
          (d\<lparr>content := Some (stringify (JArr [prepare p])),
             io_trace := io_trace d @ [ReadFile, WriteFile (stringify (JArr [prepare p]))]\<rparr>,
           created (prepare p))"
    if "\<not> rejected p" and "\<not> write_fault d"
    using submit_agent_ok [OF that(1) load_agents_non_array [where parse = parse, OF assms] that(2), where stringify = stringify]
    by simp
  from l g s show ?thesis
    by blast
qed

theorem non_array_store_witness:
  "snd (list_agents demo_parse (disk_with (Some object_text))) =
     \<lparr>status = 200, body = JArr []\<rparr> \<and>
   snd (get_agent demo_parse (disk_with (Some object_text)) ''a1'') =
     \<lparr>status = 500, body = message ''Error reading agent data.''\<rparr> \<and>
   submit_agent demo_parse demo_stringify (disk_with (Some object_text)) baz_payload =
     (\<lparr>content = Some one_text, read_fault = False, write_fault = False,
       io_trace = [ReadFile, WriteFile one_text]\<rparr>,
      created baz_agent)"
proof -
  have h: "content (disk_with (Some object_text)) = Some object_text"
    "\<not> read_fault (disk_with (Some object_text))"
    "demo_parse object_text = Some (JObj [(''agents'', JArr [])])"
    "\<not> Array_isArray (JObj [(''agents'', JArr [])])"
    by (simp_all add: disk_with_def demo_parse_def object_text_def store_text_def
          lenient_text_def)
  have valid: "\<not> rejected baz_payload \<and> \<not> write_fault (disk_with (Some object_text))"
    by (simp add: rejected_def member_def baz_payload_def disk_with_def)
  have prep: "prepare baz_payload = baz_agent"
    by (simp add: prepare_def baz_payload_def baz_agent_def)
  from non_array_store [where parse = demo_parse, OF h, of "''a1''" baz_payload demo_stringify]
    valid
  show ?thesis
    by (simp add: prep disk_with_def demo_stringify_def)
qed

section \<open>The approval gate across operations\<close>

lemma filter_js_not_listing:
  assumes "own_property r ''approved'' \<noteq> Some (JBool True)"
    and "body (case filter_js approved_test S of
                 Inl err \<Rightarrow> list_agents_catch err
               | Inr ys \<Rightarrow> \<lparr>status = 200, body = JArr ys\<rparr>) = JArr xs"
  shows "r \<notin> set xs"
proof (cases "filter_js approved_test S")
  case (Inl err)
  with assms(2) have "xs = []"
    by (simp add: list_agents_catch_not_listing)
  then show ?thesis by simp
next
  case (Inr ys)
  with assms(2) have "xs = ys" by simp
  show ?thesis
  proof
    assume "r \<in> set xs"
    with Inr \<open>xs = ys\<close> have "approved_test r = Inr True"
      by (auto dest: filter_js_kept)
    with assms(1) show False
      by (auto dest: approved_test_True)
  qed
qed

text \<open>
  C9. After a submission answered with 201, the file being read back as it was written,
  list-approved does not show the submitted record: whatever array it answers with does
  not contain the prepared record, and on a store of records it answers 200 with exactly
  the approved records that were there before.
\<close>

theorem submitted_agent_not_listed:
  assumes "submit_agent parse stringify d p = (d', res)" and "status res = 201"
    and "load_agents parse (snd (readFile d)) = Inr agents"
    and "parse (stringify (JArr (agents @ [prepare p]))) = Some (JArr (agents @ [prepare p]))"
  shows "(\<forall>xs. body (snd (list_agents parse d')) = JArr xs \<longrightarrow> prepare p \<notin> set xs) \<and>
     (JNull \<notin> set agents \<longrightarrow>
        snd (list_agents parse d') =
          \<lparr>status = 200,
           body = JArr (filter (\<lambda>a. own_property a ''approved'' = Some (JBool True)) agents)\<rparr>)"
proof -
  from submit_agent_created [OF assms(1,2)]
  have valid: "\<not> rejected p" and w: "\<not> write_fault d"
    by simp_all
  have r: "\<not> read_fault d"
    using assms(3) by (auto simp: load_agents_read_fault)
  from submit_agent_ok [OF valid assms(3) w, of stringify] assms(1)
  have d': "d' = d\<lparr>content := Some (stringify (JArr (agents @ [prepare p]))),
                    io_trace := io_trace d @
                      [ReadFile, WriteFile (stringify (JArr (agents @ [prepare p])))]\<rparr>"
    by simp
  have c: "content d' = Some (stringify (JArr (agents @ [prepare p])))"
    and r': "\<not> read_fault d'"
    using r by (simp_all add: d')
  note listed = list_agents_array [where parse = parse, OF c r' assms(4)]
  have unapproved: "own_property (prepare p) ''approved'' \<noteq> Some (JBool True)"
    using prepare_approved [OF valid] by simp
  have hidden: "prepare p \<notin> set xs" if "body (snd (list_agents parse d')) = JArr xs" for xs
    using that unapproved filter_js_not_listing [of "prepare p" "agents @ [prepare p]" xs]
    by (simp add: listed)
  have before: "snd (list_agents parse d') =
          \<lparr>status = 200,
           body = JArr (filter (\<lambda>a. own_property a ''approved'' = Some (JBool True)) agents)\<rparr>"
    if "JNull \<notin> set agents"
  proof -
    from that prepare_not_null [OF valid] have "JNull \<notin> set (agents @ [prepare p])"
      by auto
    from filter_js_approved [OF this] unapproved show ?thesis
      by (simp add: listed)
  qed
  from hidden before show ?thesis
    by blast
qed

theorem submitted_agent_not_listed_witness:
  "submit_agent demo_parse demo_stringify (disk_with (Some store_text)) baz_payload =
     (\<lparr>content = Some three_text, read_fault = False, write_fault = False,
       io_trace = [ReadFile, WriteFile three_text]\<rparr>,
      created baz_agent) \<and>
   snd (list_agents demo_parse
          \<lparr>content = Some three_text, read_fault = False, write_fault = False,
           io_trace = [ReadFile, WriteFile three_text]\<rparr>) =
     \<lparr>status = 200, body = JArr [foo_agent]\<rparr>"
proof -
  have valid: "\<not> rejected baz_payload"
    by (simp add: rejected_def member_def baz_payload_def)
  have prep: "prepare baz_payload = baz_agent"
    by (simp add: prepare_def baz_payload_def baz_agent_def)
  have parsed: "demo_parse store_text = Some (JArr [foo_agent, bar_agent])"
    by (simp add: demo_parse_def)
  have written: "demo_stringify (JArr [foo_agent, bar_agent, baz_agent]) = three_text"
    by (simp add: demo_stringify_def foo_agent_def baz_agent_def)
  have run: "submit_agent demo_parse demo_stringify (disk_with (Some store_text)) baz_payload =
     (\<lparr>content = Some three_text, read_fault = False, write_fault = False,
       io_trace = [ReadFile, WriteFile three_text]\<rparr>,
      created baz_agent)"
    using valid parsed written
    by (simp add: submit_agent_def readFile_def writeFile_def load_agents_def JSON_parse_def
          prep disk_with_def)
  have ok: "status (created baz_agent) = 201"
    by (simp add: created_def)
  have loaded: "load_agents demo_parse (snd (readFile (disk_with (Some store_text)))) =
      Inr [foo_agent, bar_agent]"
    using parsed by (simp add: load_agents_def readFile_def JSON_parse_def disk_with_def)
  have reread: "demo_parse (demo_stringify (JArr ([foo_agent, bar_agent] @ [prepare baz_payload]))) =
      Some (JArr ([foo_agent, bar_agent] @ [prepare baz_payload]))"
    using written
    by (simp add: prep demo_parse_def three_text_def store_text_def lenient_text_def
          object_text_def one_text_def)
  have clean: "JNull \<notin> set [foo_agent, bar_agent]"
    by (simp add: foo_agent_def bar_agent_def)
  from submitted_agent_not_listed [OF run ok loaded reread] clean run show ?thesis
    by (simp add: foo_agent_def bar_agent_def)
qed

text \<open>
  C10. The gate is strict equality with the boolean true. A record \<open>r\<close> whose \<^verbatim>\<open>approved\<close>
  field is anything else (absent, false, the string "true", the number 1, ...) is in no
  array that list-approved answers with and is never the body of a 200 of
  get-approved-by-id; where \<open>r\<close> is the one record of the store carrying its identifier,
  looking that identifier up answers 404.
\<close>

theorem approval_gate_is_strict:
  assumes "content d = Some data" and "\<not> read_fault d" and "parse data = Some (JArr S)"
    and "own_property r ''approved'' \<noteq> Some (JBool True)"
  shows "(\<forall>xs. body (snd (list_agents parse d)) = JArr xs \<longrightarrow> r \<notin> set xs) \<and>
     snd (get_agent parse d i) \<noteq> \<lparr>status = 200, body = r\<rparr> \<and>
     (JNull \<notin> set S \<and> r \<in> set S \<and> own_property r ''id'' = Some (JStr i) \<and>
      (\<forall>a \<in> set S. a \<noteq> r \<longrightarrow> own_property a ''id'' \<noteq> Some (JStr i)) \<longrightarrow>
        snd (get_agent parse d i) =
          \<lparr>status = 404, body = message ''Agent not found or not approved''\<rparr>)"
proof -
  have listed: "r \<notin> set xs" if "body (snd (list_agents parse d)) = JArr xs" for xs
    using that assms(4) filter_js_not_listing [of r S xs]
    by (simp add: list_agents_array [where parse = parse, OF assms(1-3)])
  have got: "snd (get_agent parse d i) \<noteq> \<lparr>status = 200, body = r\<rparr>"
  proof (cases "find_js (id_and_approved_test i) S")
    case (Inl err)
    then show ?thesis
      using status_get_agent_catch [of err]
      by (auto simp: get_agent_array [where parse = parse, OF assms(1-3)])
  next
    case (Inr agent)
    show ?thesis
    proof (cases agent)
      case None
      with Inr show ?thesis
        by (simp add: get_agent_array [where parse = parse, OF assms(1-3)])
    next
      case (Some a)
      with Inr have "id_and_approved_test i a = Inr True"
        by (auto dest: find_js_hit)
      then have "own_property a ''approved'' = Some (JBool True)"
        by (auto dest: id_and_approved_test_True)
      with assms(4) have "a \<noteq> r" by auto
      with Inr Some show ?thesis
        by (simp add: get_agent_array [where parse = parse, OF assms(1-3)])
    qed
  qed
  have lookup: "snd (get_agent parse d i) =
          \<lparr>status = 404, body = message ''Agent not found or not approved''\<rparr>"
    if "JNull \<notin> set S" and "\<forall>a \<in> set S. a \<noteq> r \<longrightarrow> own_property a ''id'' \<noteq> Some (JStr i)"
  proof -
    from that(2) assms(4)
    have "List.find (\<lambda>a. own_property a ''id'' = Some (JStr i) \<and>
                          own_property a ''approved'' = Some (JBool True)) S = None"
      by (auto simp: find_None_iff)
    with get_agent_no_null [where parse = parse, OF assms(1-3) that(1), of i] show ?thesis
      by simp
  qed
  from listed got lookup show ?thesis
    by blast
qed

theorem approval_gate_is_strict_witness:
  "snd (list_agents demo_parse (disk_with (Some lenient_text))) =
     \<lparr>status = 200, body = JArr []\<rparr> \<and>
   snd (get_agent demo_parse (disk_with (Some lenient_text)) ''q1'') =
     \<lparr>status = 404, body = message ''Agent not found or not approved''\<rparr> \<and>
   snd (get_agent demo_parse (disk_with (Some lenient_text)) ''n1'') =
     \<lparr>status = 404, body = message ''Agent not found or not approved''\<rparr> \<and>
   truthy (JStr ''true'') \<and> truthy (JNum 1)"
proof -
  have h: "content (disk_with (Some lenient_text)) = Some lenient_text"
    "\<not> read_fault (disk_with (Some lenient_text))"
    "demo_parse lenient_text = Some (JArr [quoted_agent, numbered_agent])"
    by (simp_all add: disk_with_def demo_parse_def lenient_text_def store_text_def)
  have q: "own_property quoted_agent ''approved'' \<noteq> Some (JBool True)"
    and n: "own_property numbered_agent ''approved'' \<noteq> Some (JBool True)"
    by (simp_all add: quoted_agent_def numbered_agent_def)
  note tq = approval_gate_is_strict [where parse = demo_parse, OF h q]
  note tn = approval_gate_is_strict [where parse = demo_parse, OF h n]
  have l: "snd (list_agents demo_parse (disk_with (Some lenient_text))) =
      \<lparr>status = 200, body = JArr []\<rparr>"
    using h
    by (simp add: list_agents_array [where parse = demo_parse] approved_test_def member_def
          quoted_agent_def numbered_agent_def)
  have gq: "snd (get_agent demo_parse (disk_with (Some lenient_text)) ''q1'') =
      \<lparr>status = 404, body = message ''Agent not found or not approved''\<rparr>"
    using tq [of "''q1''", THEN conjunct2, THEN conjunct2]
    by (simp add: quoted_agent_def numbered_agent_def)
  have gn: "snd (get_agent demo_parse (disk_with (Some lenient_text)) ''n1'') =
      \<lparr>status = 404, body = message ''Agent not found or not approved''\<rparr>"
    using tn [of "''n1''", THEN conjunct2, THEN conjunct2]
    by (simp add: quoted_agent_def numbered_agent_def)
  from l gq gn show ?thesis
    by simp
qed

end
